theory Spec2Isabelle
  imports Main
begin

section \<open>The team overlay client (static/index.js)\<close>

text \<open>
  The script keeps one WebSocket to the server, reconnects two seconds after every
  close, and redraws a grid of six cards from every message it can decode. The
  embedding follows the script function by function: values are the values
  \<open>JSON.parse\<close> can return, an exception is a result of its own, the page is a
  record that each handler takes and returns.
\<close>

subsection \<open>Values\<close>

text \<open>
  What \<open>JSON.parse\<close> returns, and \<open>undefined\<close> for a property that is not there.
  A number is held as the text that \<open>ToString\<close> gives for it (\<open>''0''\<close> for both
  zeros): the script only tests a number for truthiness and interpolates it into
  text. An object is the association list of its own properties.
\<close>

datatype jsval =
    JUndefined
  | JNull
  | JBool bool
  | JNum string
  | JStr string
  | JArr "jsval list"
  | JObj "(string \<times> jsval) list"

datatype js_error = SyntaxError | TypeError

fun nullish :: "jsval \<Rightarrow> bool" where
  "nullish JUndefined = True"
| "nullish JNull = True"
| "nullish _ = False"

fun truthy :: "jsval \<Rightarrow> bool" where
  "truthy JUndefined = False"
| "truthy JNull = False"
| "truthy (JBool b) = b"
| "truthy (JNum s) = (s \<noteq> ''0'' \<and> s \<noteq> ''NaN'')"
| "truthy (JStr s) = (s \<noteq> [])"
| "truthy (JArr _) = True"
| "truthy (JObj _) = True"

text \<open>The operator \<open>a || b\<close>.\<close>

definition js_or :: "jsval \<Rightarrow> jsval \<Rightarrow> jsval" where
  "js_or a b = (if truthy a then a else b)"

text \<open>
  \<open>ToString\<close>, as a template literal and the setters of \<open>alt\<close> and \<open>textContent\<close>
  apply it. An array joins its elements with commas, \<open>null\<close> and \<open>undefined\<close>
  elements giving the empty text. An object gives \<open>[object Object]\<close>, unless it has
  an own property \<open>toString\<close>: a decoded value is never callable, \<open>valueOf\<close> then
  returns no primitive either, and the conversion throws a TypeError.
\<close>

fun toString :: "jsval \<Rightarrow> js_error + string"
  and join_elems :: "jsval list \<Rightarrow> js_error + string" where
  "toString JUndefined = Inr ''undefined''"
| "toString JNull = Inr ''null''"
| "toString (JBool b) = Inr (if b then ''true'' else ''false'')"
| "toString (JNum s) = Inr s"
| "toString (JStr s) = Inr s"
| "toString (JArr xs) = join_elems xs"
| "toString (JObj kvs) =
     (case map_of kvs ''toString'' of
        Some _ \<Rightarrow> Inl TypeError
      | None \<Rightarrow> Inr ''[object Object]'')"
| "join_elems [] = Inr []"
| "join_elems (x # xs) =
     (case (if nullish x then Inr [] else toString x) of
        Inl e \<Rightarrow> Inl e
      | Inr a \<Rightarrow>
          (if xs = [] then Inr a
           else (case join_elems xs of
                   Inl e \<Rightarrow> Inl e
                 | Inr b \<Rightarrow> Inr (a @ '','' @ b))))"

text \<open>The decimal text of an index, the property key that \<open>o[i]\<close> reads on an object.\<close>

definition digit :: "nat \<Rightarrow> char" where
  "digit d = ''0123456789'' ! d"

function show_nat :: "nat \<Rightarrow> string" where
  "show_nat n = (if n < 10 then [digit n] else show_nat (n div 10) @ [digit (n mod 10)])"
  by pat_completeness auto
termination
  by (relation "measure id") auto

text \<open>
  \<open>o[i]\<close> for an index \<open>i\<close>. Reading a property of \<open>undefined\<close> or \<open>null\<close>
  throws; an index past the end of an array or of a string reads \<open>undefined\<close>, as
  does any index of a number or a boolean.
\<close>

fun get_index :: "jsval \<Rightarrow> nat \<Rightarrow> js_error + jsval" where
  "get_index JUndefined i = Inl TypeError"
| "get_index JNull i = Inl TypeError"
| "get_index (JArr xs) i = Inr (if i < length xs then xs ! i else JUndefined)"
| "get_index (JStr s) i = Inr (if i < length s then JStr [s ! i] else JUndefined)"
| "get_index (JObj kvs) i =
     Inr (case map_of kvs (show_nat i) of None \<Rightarrow> JUndefined | Some v \<Rightarrow> v)"
| "get_index _ i = Inr JUndefined"

text \<open>
  \<open>o.k\<close> for one of the keys the script reads by name (\<open>pokemon\<close>, \<open>name\<close>,
  \<open>nickname\<close>): no prototype defines them, so only an object's own property can
  answer.
\<close>

fun get_field :: "jsval \<Rightarrow> string \<Rightarrow> js_error + jsval" where
  "get_field JUndefined k = Inl TypeError"
| "get_field JNull k = Inl TypeError"
| "get_field (JObj kvs) k =
     Inr (case map_of kvs k of None \<Rightarrow> JUndefined | Some v \<Rightarrow> v)"
| "get_field _ k = Inr JUndefined"

subsection \<open>The page\<close>

text \<open>
  The elements that \<open>updateTeam\<close> builds, with the attributes it sets. An image
  also has the state the browser keeps for it: \<open>pending\<close> says that \<open>src\<close> was
  assigned and the load it started has not settled yet. \<open>captured\<close> is the
  \<open>pokemonName\<close> that the image's \<open>onerror\<close> closure holds.
\<close>

record img_el =
  src :: string
  alt :: string
  display :: string
  pending :: bool
  captured :: jsval

record sprite_el =
  sprite_className :: string
  img :: "img_el option"

record name_el =
  name_className :: string
  textContent :: string

record card_el =
  card_className :: string
  animationDelay :: string
  spriteContainer :: sprite_el
  nameEl :: name_el

datatype ready_state = CONNECTING | OPEN | CLOSING | CLOSED

record websocket =
  url :: string
  readyState :: ready_state

datatype log_entry =
    Log string
  | LogError string js_error
  | LogEvent string

datatype callback = Connect

text \<open>
  The page: the children of the \<open>teamGrid\<close> element, the variable \<open>ws\<close>, the
  console, the clock in milliseconds and the timers that \<open>setTimeout\<close> has
  registered, each with the time it is due. \<open>opened\<close> lists the address of every
  WebSocket constructed so far.
\<close>

record page =
  location_protocol :: string
  location_host :: string
  teamGrid :: "card_el list"
  ws :: "websocket option"
  opened :: "string list"
  console :: "log_entry list"
  now :: nat
  timers :: "(nat \<times> callback) list"

text \<open>A statement either completes or throws; both leave a page behind.\<close>

datatype outcome = Done page | Thrown js_error page

subsection \<open>updateTeam\<close>

definition endsWith :: "string \<Rightarrow> string \<Rightarrow> bool" where
  "endsWith s ext = (length ext \<le> length s \<and> drop (length s - length ext) s = ext)"

definition sprite_url :: "string \<Rightarrow> string \<Rightarrow> string" where
  "sprite_url name ext = ''/sprites/'' @ name @ ext"

text \<open>
  \<open>`${i * 0.1}s`\<close> for the six indices of the loop. The product is a double, and
  \<open>3 * 0.1\<close> is not the double \<open>0.3\<close>.
\<close>

fun animation_delay :: "nat \<Rightarrow> string" where
  "animation_delay 0 = ''0s''"
| "animation_delay (Suc 0) = ''0.1s''"
| "animation_delay (Suc (Suc 0)) = ''0.2s''"
| "animation_delay (Suc (Suc (Suc 0))) = ''0.30000000000000004s''"
| "animation_delay (Suc (Suc (Suc (Suc 0)))) = ''0.4s''"
| "animation_delay (Suc (Suc (Suc (Suc (Suc 0))))) = ''0.5s''"
| "animation_delay _ = []"

text \<open>\<open>pokemon[i].k\<close>: both reads can throw.\<close>

definition read_slot :: "jsval \<Rightarrow> nat \<Rightarrow> string \<Rightarrow> js_error + jsval" where
  "read_slot pokemon i k =
     (case get_index pokemon i of
        Inl e \<Rightarrow> Inl e
      | Inr entry \<Rightarrow> get_field entry k)"

text \<open>
  The image of a slot that is not empty. The template literal converts the name to
  text and may throw.
\<close>

definition new_img :: "jsval \<Rightarrow> js_error + img_el" where
  "new_img pokemonName =
     (case toString pokemonName of
        Inl e \<Rightarrow> Inl e
      | Inr s \<Rightarrow>
          Inr \<lparr>src = sprite_url s ''.png'', alt = s, display = [], pending = True,
               captured = pokemonName\<rparr>)"

text \<open>
  The loop body after its two property reads, from the defaults \<open>|| ""\<close> to the
  finished card. Both conversions to text can throw.
\<close>

definition build_card :: "nat \<Rightarrow> jsval \<Rightarrow> jsval \<Rightarrow> js_error + card_el" where
  "build_card i nm nick =
     (let pokemonName = js_or nm (JStr []);
          pokemonNickname = js_or nick (JStr []);
          isEmpty = (\<not> truthy pokemonName);
          empty_cls = (if isEmpty then ''empty'' else [])
      in
     (case (if \<not> isEmpty then map_sum id Some (new_img pokemonName) else Inr None) of
        Inl e \<Rightarrow> Inl e
      | Inr im \<Rightarrow>
     (case (if isEmpty then Inr ''Empty Slot''
            else toString (js_or pokemonNickname pokemonName)) of
        Inl e \<Rightarrow> Inl e
      | Inr label \<Rightarrow>
          Inr \<lparr>card_className = ''pokemon-card '' @ empty_cls @ '' fade-in'',
               animationDelay = animation_delay i,
               spriteContainer =
                 \<lparr>sprite_className = ''sprite-container '' @ empty_cls, img = im\<rparr>,
               nameEl =
                 \<lparr>name_className = ''pokemon-name '' @ empty_cls,
                  textContent = label\<rparr>\<rparr>)))"

text \<open>
  One pass of the loop, up to the card it appends. Every statement that can throw
  comes before \<open>appendChild\<close>, so the pass either throws and leaves the grid alone
  or appends one card.
\<close>

definition updateTeam_body :: "jsval \<Rightarrow> nat \<Rightarrow> js_error + card_el" where
  "updateTeam_body pokemon i =
     (case read_slot pokemon i ''name'' of
        Inl e \<Rightarrow> Inl e
      | Inr nm \<Rightarrow>
          (case read_slot pokemon i ''nickname'' of
             Inl e \<Rightarrow> Inl e
           | Inr nick \<Rightarrow> build_card i nm nick))"

function updateTeam_loop :: "jsval \<Rightarrow> nat \<Rightarrow> page \<Rightarrow> outcome" where
  "updateTeam_loop pokemon i st =
     (if i < 6 then
        (case updateTeam_body pokemon i of
           Inl e \<Rightarrow> Thrown e st
         | Inr c \<Rightarrow>
             updateTeam_loop pokemon (i + 1) (st\<lparr>teamGrid := teamGrid st @ [c]\<rparr>))
      else Done st)"
  by pat_completeness auto
termination
  by (relation "measure (\<lambda>(pokemon, i, st). 6 - i)") auto

definition updateTeam :: "jsval \<Rightarrow> page \<Rightarrow> outcome" where
  "updateTeam pokemon st = updateTeam_loop pokemon 0 (st\<lparr>teamGrid := []\<rparr>)"

subsection \<open>The image fallback\<close>

text \<open>
  \<open>classList.add\<close>: the class attribute is split at white space into a set of
  tokens in order of first occurrence, the token is appended if it is new, and the
  set is written back with single spaces.
\<close>

fun split_ws :: "string \<Rightarrow> string \<Rightarrow> string list" where
  "split_ws cur [] = (if cur = [] then [] else [cur])"
| "split_ws cur (c # cs) =
     (if c \<in> set [CHR '' '', CHR 0x09, CHR 0x0A, CHR 0x0C, CHR 0x0D]
      then (if cur = [] then split_ws [] cs else cur # split_ws [] cs)
      else split_ws (cur @ [c]) cs)"

fun ordered_set :: "string list \<Rightarrow> string list \<Rightarrow> string list" where
  "ordered_set seen [] = seen"
| "ordered_set seen (t # ts) =
     (if t \<in> set seen then ordered_set seen ts else ordered_set (seen @ [t]) ts)"

definition classList :: "string \<Rightarrow> string list" where
  "classList cn = ordered_set [] (split_ws [] cn)"

fun serialize_tokens :: "string list \<Rightarrow> string" where
  "serialize_tokens [] = []"
| "serialize_tokens [t] = t"
| "serialize_tokens (t # ts) = t @ '' '' @ serialize_tokens ts"

definition classList_add :: "string \<Rightarrow> string \<Rightarrow> string" where
  "classList_add tok cn =
     (let ts = classList cn
      in serialize_tokens (if tok \<in> set ts then ts else ts @ [tok]))"

text \<open>
  The \<open>onerror\<close> handler of the image \<open>this\<close> inside its container. Reading
  \<open>src\<close> gives the address resolved against the page's, and resolving a path that
  starts with \<open>/sprites/\<close> keeps its last four characters, so the text that was
  assigned stands for it. An assignment to \<open>src\<close> starts a new load.
\<close>

definition img_onerror :: "sprite_el \<Rightarrow> img_el \<Rightarrow> js_error + sprite_el" where
  "img_onerror container this =
     (if endsWith (src this) ''.png'' then
        (case toString (captured this) of
           Inl e \<Rightarrow> Inl e
         | Inr s \<Rightarrow>
             Inr (container\<lparr>img := Some (this\<lparr>src := sprite_url s ''.gif'', pending := True\<rparr>)\<rparr>))
      else if endsWith (src this) ''.gif'' then
        (case toString (captured this) of
           Inl e \<Rightarrow> Inl e
         | Inr s \<Rightarrow>
             Inr (container\<lparr>img := Some (this\<lparr>src := sprite_url s ''.jpg'', pending := True\<rparr>)\<rparr>))
      else
        Inr (container\<lparr>sprite_className := classList_add ''empty'' (sprite_className container),
                       img := Some (this\<lparr>display := ''none''\<rparr>)\<rparr>))"

text \<open>
  How far a source is from the end of the chain: the handler only assigns a source
  of a lower rank.
\<close>

definition src_rank :: "string \<Rightarrow> nat" where
  "src_rank s = (if endsWith s ''.png'' then 2 else if endsWith s ''.gif'' then 1 else 0)"

definition load_measure :: "sprite_el \<Rightarrow> nat" where
  "load_measure sc =
     (case img sc of
        None \<Rightarrow> 0
      | Some im \<Rightarrow> if pending im then Suc (src_rank (src im)) else 0)"

text \<open>
  The browser's side: a pending load is tried, \<open>ok\<close> saying which addresses load.
  A load that fails fires \<open>onerror\<close>, and the load the handler may have started is
  tried in turn. The result lists the addresses requested, in order, with the
  container as it is when nothing is pending any more.
\<close>

function load_sprite :: "(string \<Rightarrow> bool) \<Rightarrow> sprite_el \<Rightarrow> string list \<times> sprite_el" where
  "load_sprite ok sc =
     (case img sc of
        None \<Rightarrow> ([], sc)
      | Some im \<Rightarrow>
          if \<not> pending im then ([], sc)
          else if ok (src im) then ([src im], sc\<lparr>img := Some (im\<lparr>pending := False\<rparr>)\<rparr>)
          else
            (case img_onerror (sc\<lparr>img := Some (im\<lparr>pending := False\<rparr>)\<rparr>) (im\<lparr>pending := False\<rparr>) of
               Inl e \<Rightarrow> ([src im], sc\<lparr>img := Some (im\<lparr>pending := False\<rparr>)\<rparr>)
             | Inr sc' \<Rightarrow>
                 (case load_sprite ok sc' of (us, r) \<Rightarrow> (src im # us, r))))"
  by pat_completeness auto
termination
proof (relation "measure (\<lambda>(ok, sc). load_measure sc)")
  show "wf (measure (\<lambda>(ok, sc). load_measure sc))"
    by simp
next
  fix ok :: "string \<Rightarrow> bool" and sc :: sprite_el and im :: img_el and sc' :: sprite_el
  assume im: "img sc = Some im" and pend: "\<not> \<not> pending im"
    and h: "img_onerror (sc\<lparr>img := Some (im\<lparr>pending := False\<rparr>)\<rparr>) (im\<lparr>pending := False\<rparr>) = Inr sc'"
  have app: "\<And>a e ext. length e = length ext \<Longrightarrow> endsWith (a @ e) ext = (e = ext)"
    by (auto simp: endsWith_def)
  have url: "\<And>s e ext. length e = length ext \<Longrightarrow> endsWith (sprite_url s e) ext = (e = ext)"
    using app [of _ _ "''/sprites/'' @ _"] by (simp add: sprite_url_def)
  have "load_measure sc' < Suc (src_rank (src im))"
    using h
    by (auto simp: img_onerror_def load_measure_def src_rank_def url
             split: if_splits sum.splits)
  then show "((ok, sc'), (ok, sc)) \<in> measure (\<lambda>(ok, sc). load_measure sc)"
    using im pend by (simp add: load_measure_def)
qed

subsection \<open>The connection\<close>

definition connect :: "page \<Rightarrow> page" where
  "connect st =
     (let protocol = (if location_protocol st = ''https:'' then ''wss:'' else ''ws:'');
          u = protocol @ ''//'' @ location_host st @ ''/ws''
      in st\<lparr>ws := Some \<lparr>url = u, readyState = CONNECTING\<rparr>, opened := opened st @ [u]\<rparr>)"

definition ws_onopen :: "page \<Rightarrow> page" where
  "ws_onopen st = st\<lparr>console := console st @ [Log ''Connected to server'']\<rparr>"

text \<open>
  \<open>JSON.parse\<close> is the platform's; the handler takes it as \<open>parse\<close>, which either
  throws or returns the decoded value. The \<open>try\<close> block is \<open>onmessage_try\<close>,
  the handler catches whatever it throws.
\<close>

definition onmessage_try :: "(string \<Rightarrow> js_error + jsval) \<Rightarrow> string \<Rightarrow> page \<Rightarrow> outcome" where
  "onmessage_try parse body st =
     (case parse body of
        Inl e \<Rightarrow> Thrown e st
      | Inr data \<Rightarrow>
          (case get_field data ''pokemon'' of
             Inl e \<Rightarrow> Thrown e st
           | Inr pokemon \<Rightarrow> updateTeam pokemon st))"

definition ws_onmessage :: "(string \<Rightarrow> js_error + jsval) \<Rightarrow> string \<Rightarrow> page \<Rightarrow> outcome" where
  "ws_onmessage parse body st =
     (case onmessage_try parse body st of
        Done st' \<Rightarrow> Done st'
      | Thrown e st' \<Rightarrow>
          Done (st'\<lparr>console := console st' @ [LogError ''Error parsing message:'' e]\<rparr>))"

definition ws_onerror :: "page \<Rightarrow> page" where
  "ws_onerror st = st\<lparr>console := console st @ [LogEvent ''WebSocket error:'']\<rparr>"

text \<open>\<open>setTimeout\<close> registers the callback, due \<open>delay\<close> milliseconds from now.\<close>

definition setTimeout :: "callback \<Rightarrow> nat \<Rightarrow> page \<Rightarrow> page" where
  "setTimeout cb delay st = st\<lparr>timers := timers st @ [(now st + delay, cb)]\<rparr>"

definition ws_onclose :: "page \<Rightarrow> page" where
  "ws_onclose st =
     setTimeout Connect 2000 (st\<lparr>console := console st @ [Log ''Disconnected from server'']\<rparr>)"

text \<open>
  The browser's side of the timers: time passes, and the callbacks that are due run
  in the order they were registered, each once.
\<close>

fun run_callback :: "callback \<Rightarrow> page \<Rightarrow> page" where
  "run_callback Connect st = connect st"

definition advance :: "nat \<Rightarrow> page \<Rightarrow> page" where
  "advance ms st = st\<lparr>now := now st + ms\<rparr>"

definition fire_due :: "page \<Rightarrow> page" where
  "fire_due st =
     foldl (\<lambda>s t. run_callback (snd t) s)
       (st\<lparr>timers := filter (\<lambda>t. now st < fst t) (timers st)\<rparr>)
       (filter (\<lambda>t. fst t \<le> now st) (timers st))"

text \<open>One round of the retry loop: the socket closes, and \<open>ms\<close> milliseconds pass.\<close>

definition close_and_wait :: "nat \<Rightarrow> page \<Rightarrow> page" where
  "close_and_wait ms st = fire_due (advance ms (ws_onclose st))"

subsection \<open>What the claims speak of\<close>

text \<open>The label of the card that pass \<open>i\<close> builds, or the error the pass throws.\<close>

definition slot_label :: "jsval \<Rightarrow> nat \<Rightarrow> js_error + string" where
  "slot_label pokemon i =
     (case updateTeam_body pokemon i of
        Inl e \<Rightarrow> Inl e
      | Inr c \<Rightarrow> Inr (textContent (nameEl c)))"

text \<open>
  A slot entry of the data model: an object whose \<open>name\<close> and \<open>nickname\<close> are
  texts where they are present.
\<close>

fun optional_string :: "jsval \<Rightarrow> bool" where
  "optional_string JUndefined = True"
| "optional_string (JStr s) = True"
| "optional_string _ = False"

fun is_slot_entry :: "jsval \<Rightarrow> bool" where
  "is_slot_entry (JObj kvs) =
     (optional_string (case map_of kvs ''name'' of None \<Rightarrow> JUndefined | Some v \<Rightarrow> v) \<and>
      optional_string (case map_of kvs ''nickname'' of None \<Rightarrow> JUndefined | Some v \<Rightarrow> v))"
| "is_slot_entry _ = False"

text \<open>A page that has just loaded, and the roster of six with one slot filled.\<close>

definition page0 :: page where
  "page0 = \<lparr>location_protocol = ''http:'', location_host = ''localhost:8000'',
            teamGrid = [], ws = None, opened = [], console = [], now = 0, timers = []\<rparr>"

definition scenario :: "jsval list" where
  "scenario = [JObj [(''name'', JStr ''pikachu''), (''nickname'', JStr ''Sparky'')],
               JObj [], JObj [], JObj [], JObj [], JObj []]"

text \<open>
  The text of a name or nickname that is a text, and the card of an empty slot at
  index \<open>i\<close>.
\<close>

fun text_of :: "jsval \<Rightarrow> string" where
  "text_of (JStr s) = s"
| "text_of _ = []"

definition placeholder_card :: "nat \<Rightarrow> card_el" where
  "placeholder_card i =
     \<lparr>card_className = ''pokemon-card empty fade-in'',
      animationDelay = animation_delay i,
      spriteContainer = \<lparr>sprite_className = ''sprite-container empty'', img = None\<rparr>,
      nameEl = \<lparr>name_className = ''pokemon-name empty'', textContent = ''Empty Slot''\<rparr>\<rparr>"

text \<open>
  The card of \<open>{name: "pikachu", nickname: "Sparky"}\<close> and the card of
  \<open>{name: "pikachu"}\<close>, as the pass for index \<open>i\<close> builds them.
\<close>

definition sparky_card :: "nat \<Rightarrow> card_el" where
  "sparky_card i =
     \<lparr>card_className = ''pokemon-card  fade-in'',
      animationDelay = animation_delay i,
      spriteContainer =
        \<lparr>sprite_className = ''sprite-container '',
         img = Some \<lparr>src = ''/sprites/pikachu.png'', alt = ''pikachu'', display = [],
                     pending = True, captured = JStr ''pikachu''\<rparr>\<rparr>,
      nameEl = \<lparr>name_className = ''pokemon-name '', textContent = ''Sparky''\<rparr>\<rparr>"

definition pikachu_card :: "nat \<Rightarrow> card_el" where
  "pikachu_card i =
     \<lparr>card_className = ''pokemon-card  fade-in'',
      animationDelay = animation_delay i,
      spriteContainer =
        \<lparr>sprite_className = ''sprite-container '',
         img = Some \<lparr>src = ''/sprites/pikachu.png'', alt = ''pikachu'', display = [],
                     pending = True, captured = JStr ''pikachu''\<rparr>\<rparr>,
      nameEl = \<lparr>name_className = ''pokemon-name '', textContent = ''pikachu''\<rparr>\<rparr>"

text \<open>
  A stand-in for \<open>JSON.parse\<close> that knows two message bodies and rejects every
  other text, for the examples.
\<close>

definition toy_parse :: "string \<Rightarrow> js_error + jsval" where
  "toy_parse body =
     (if body = ''{}'' then Inr (JObj [])
      else if body = ''{\"pokemon\":[{\"name\":\"pikachu\"}]}''
        then Inr (JObj [(''pokemon'', JArr [JObj [(''name'', JStr ''pikachu'')]])])
      else Inl SyntaxError)"

section \<open>Properties\<close>

subsection \<open>Reads, conversions and single cards\<close>

declare updateTeam_loop.simps [simp del]

lemma get_field_Inr_iff: "(\<exists>v. get_field e k = Inr v) = (\<not> nullish e)"
  by (cases e) simp_all

lemma get_field_error: "get_field e k = Inl err \<Longrightarrow> err = TypeError"
  by (cases e) simp_all

lemma get_index_error: "get_index p i = Inl err \<Longrightarrow> err = TypeError"
  by (cases p) simp_all

lemma toString_error:
  "toString v = Inl err \<Longrightarrow> err = TypeError"
  "join_elems vs = Inl err \<Longrightarrow> err = TypeError"
  by (induction v and vs rule: toString_join_elems.induct)
     (auto split: if_splits sum.splits option.splits)

lemma build_card_error: "build_card i nm nick = Inl err \<Longrightarrow> err = TypeError"
  by (auto simp: build_card_def new_img_def Let_def
           split: if_splits sum.splits dest: toString_error)

lemma updateTeam_body_error: "updateTeam_body p i = Inl err \<Longrightarrow> err = TypeError"
  by (auto simp: updateTeam_body_def read_slot_def
           split: sum.splits dest: get_field_error get_index_error build_card_error)

lemma updateTeam_body_reads:
  assumes "get_index p i = Inr e" and "get_field e ''name'' = Inr nm"
    and "get_field e ''nickname'' = Inr nick"
  shows "updateTeam_body p i = build_card i nm nick"
  using assms by (simp add: updateTeam_body_def read_slot_def)

lemma build_card_empty:
  assumes "\<not> truthy nm"
  shows "build_card i nm nick =
     Inr \<lparr>card_className = ''pokemon-card empty fade-in'',
          animationDelay = animation_delay i,
          spriteContainer = \<lparr>sprite_className = ''sprite-container empty'', img = None\<rparr>,
          nameEl = \<lparr>name_className = ''pokemon-name empty'', textContent = ''Empty Slot''\<rparr>\<rparr>"
  using assms by (simp add: build_card_def js_or_def Let_def)

lemma build_card_named:
  assumes "truthy nm" and "toString nm = Inr s"
    and "toString (if truthy nick then nick else nm) = Inr l"
  shows "build_card i nm nick =
     Inr \<lparr>card_className = ''pokemon-card  fade-in'',
          animationDelay = animation_delay i,
          spriteContainer =
            \<lparr>sprite_className = ''sprite-container '',
             img = Some \<lparr>src = sprite_url s ''.png'', alt = s, display = [],
                         pending = True, captured = nm\<rparr>\<rparr>,
          nameEl = \<lparr>name_className = ''pokemon-name '', textContent = l\<rparr>\<rparr>"
  using assms by (auto simp: build_card_def js_or_def new_img_def Let_def)

subsection \<open>The loop\<close>

lemma updateTeam_loop_done:
  assumes "i \<le> 6" and "\<forall>j. i \<le> j \<and> j < 6 \<longrightarrow> updateTeam_body p j = Inr (cs j)"
  shows "updateTeam_loop p i st = Done (st\<lparr>teamGrid := teamGrid st @ map cs [i..<6]\<rparr>)"
  using assms
proof (induction "6 - i" arbitrary: i st)
  case 0
  then have "i = 6" by simp
  then show ?case by (simp add: updateTeam_loop.simps [of p 6])
next
  case (Suc n)
  then have lt: "i < 6" by simp
  have body: "updateTeam_body p i = Inr (cs i)"
    using Suc.prems lt by simp
  have "updateTeam_loop p (i + 1) (st\<lparr>teamGrid := teamGrid st @ [cs i]\<rparr>) =
        Done (st\<lparr>teamGrid := teamGrid st @ [cs i]\<rparr>
                \<lparr>teamGrid := teamGrid (st\<lparr>teamGrid := teamGrid st @ [cs i]\<rparr>) @ map cs [i + 1..<6]\<rparr>)"
    using Suc.hyps(2) Suc.prems lt by (intro Suc.hyps(1)) auto
  then show ?case
    using lt body by (simp add: updateTeam_loop.simps [of p i] upt_conv_Cons)
qed

lemma updateTeam_loop_thrown:
  assumes "i \<le> k" and "k < 6" and "updateTeam_body p k = Inl e"
    and "\<forall>j. i \<le> j \<and> j < k \<longrightarrow> updateTeam_body p j = Inr (cs j)"
  shows "updateTeam_loop p i st = Thrown e (st\<lparr>teamGrid := teamGrid st @ map cs [i..<k]\<rparr>)"
  using assms
proof (induction "k - i" arbitrary: i st)
  case 0
  then have "i = k" by simp
  then show ?case
    using 0 by (simp add: updateTeam_loop.simps [of p k])
next
  case (Suc n)
  then have lt: "i < k" by simp
  have body: "updateTeam_body p i = Inr (cs i)"
    using Suc.prems lt by simp
  have "updateTeam_loop p (i + 1) (st\<lparr>teamGrid := teamGrid st @ [cs i]\<rparr>) =
        Thrown e (st\<lparr>teamGrid := teamGrid st @ [cs i]\<rparr>
                \<lparr>teamGrid := teamGrid (st\<lparr>teamGrid := teamGrid st @ [cs i]\<rparr>) @ map cs [i + 1..<k]\<rparr>)"
    using Suc.hyps(2) Suc.prems lt by (intro Suc.hyps(1)) auto
  then show ?case
    using lt body Suc.prems by (simp add: updateTeam_loop.simps [of p i] upt_conv_Cons)
qed

lemma updateTeam_done:
  assumes "\<forall>j<6. updateTeam_body p j = Inr (cs j)"
  shows "updateTeam p st = Done (st\<lparr>teamGrid := map cs [0..<6]\<rparr>)"
  using updateTeam_loop_done [of 0 p cs "st\<lparr>teamGrid := []\<rparr>"] assms
  by (simp add: updateTeam_def)

lemma updateTeam_thrown:
  assumes "k < 6" and "updateTeam_body p k = Inl e"
    and "\<forall>j<k. updateTeam_body p j = Inr (cs j)"
  shows "updateTeam p st = Thrown e (st\<lparr>teamGrid := map cs [0..<k]\<rparr>)"
  using updateTeam_loop_thrown [of 0 k p e cs "st\<lparr>teamGrid := []\<rparr>"] assms
  by (simp add: updateTeam_def)

lemma first_throw:
  assumes "updateTeam_body p n = Inl e0"
  obtains k e where "k \<le> n" and "updateTeam_body p k = Inl e"
    and "\<forall>j<k. updateTeam_body p j = Inr (projr (updateTeam_body p j))"
proof -
  define k where "k = (LEAST m. \<exists>e. updateTeam_body p m = Inl e)"
  have ex: "\<exists>e. updateTeam_body p n = Inl e" using assms by blast
  have "\<exists>e. updateTeam_body p k = Inl e"
    unfolding k_def using ex by (rule LeastI)
  then obtain e where e: "updateTeam_body p k = Inl e" by blast
  have le: "k \<le> n" unfolding k_def using ex by (rule Least_le)
  have "\<forall>j<k. updateTeam_body p j = Inr (projr (updateTeam_body p j))"
  proof (intro allI impI)
    fix j assume "j < k"
    then have "\<not> (\<exists>e. updateTeam_body p j = Inl e)"
      unfolding k_def by (rule not_less_Least)
    then show "updateTeam_body p j = Inr (projr (updateTeam_body p j))"
      by (cases "updateTeam_body p j") auto
  qed
  with le e show thesis by (rule that)
qed

lemma updateTeam_Done_nth:
  assumes "updateTeam p st = Done st'" and "i < 6"
  shows "updateTeam_body p i = Inr (teamGrid st' ! i)" and "length (teamGrid st') = 6"
    and "st' = st\<lparr>teamGrid := teamGrid st'\<rparr>"
proof -
  have all: "\<forall>j<6. updateTeam_body p j = Inr (projr (updateTeam_body p j))"
  proof (intro allI impI)
    fix j :: nat assume j: "j < 6"
    show "updateTeam_body p j = Inr (projr (updateTeam_body p j))"
    proof (cases "updateTeam_body p j")
      case (Inl e0)
      then obtain k e where "k \<le> j" and "updateTeam_body p k = Inl e"
        and "\<forall>i<k. updateTeam_body p i = Inr (projr (updateTeam_body p i))"
        by (rule first_throw)
      then have "updateTeam p st = Thrown e (st\<lparr>teamGrid := map (\<lambda>i. projr (updateTeam_body p i)) [0..<k]\<rparr>)"
        using j by (intro updateTeam_thrown) auto
      then show ?thesis using assms(1) by simp
    next
      case (Inr c)
      then show ?thesis by simp
    qed
  qed
  have eq: "st' = st\<lparr>teamGrid := map (\<lambda>i. projr (updateTeam_body p i)) [0..<6]\<rparr>"
    using updateTeam_done [OF all, of st] assms(1) by simp
  show "updateTeam_body p i = Inr (teamGrid st' ! i)"
    using all assms(2) by (simp add: eq del: upt_Suc)
  show "length (teamGrid st') = 6" by (simp add: eq)
  show "st' = st\<lparr>teamGrid := teamGrid st'\<rparr>" by (simp add: eq)
qed

lemma is_slot_entry_reads:
  assumes "is_slot_entry e"
  obtains nm nick where "get_field e ''name'' = Inr nm" and "get_field e ''nickname'' = Inr nick"
    and "optional_string nm" and "optional_string nick"
  using assms by (cases e) auto

lemma optional_string_toString: "optional_string v \<Longrightarrow> \<exists>s. toString v = Inr s"
  by (cases v) auto

lemma build_card_total:
  assumes "optional_string nm" and "optional_string nick"
  shows "\<exists>c. build_card i nm nick = Inr c"
proof (cases "truthy nm")
  case False
  then show ?thesis by (simp add: build_card_empty)
next
  case True
  obtain s where s: "toString nm = Inr s"
    using assms(1) optional_string_toString by blast
  have "optional_string (if truthy nick then nick else nm)"
    using assms by simp
  then obtain l where "toString (if truthy nick then nick else nm) = Inr l"
    using optional_string_toString by blast
  with True s show ?thesis by (simp add: build_card_named)
qed

lemma slot_entry_card:
  assumes "optional_string nm" and "optional_string nick"
  shows "build_card i nm nick =
     Inr (if nm = JUndefined \<or> nm = JStr [] then
            \<lparr>card_className = ''pokemon-card empty fade-in'',
             animationDelay = animation_delay i,
             spriteContainer = \<lparr>sprite_className = ''sprite-container empty'', img = None\<rparr>,
             nameEl = \<lparr>name_className = ''pokemon-name empty'', textContent = ''Empty Slot''\<rparr>\<rparr>
          else
            \<lparr>card_className = ''pokemon-card  fade-in'',
             animationDelay = animation_delay i,
             spriteContainer =
               \<lparr>sprite_className = ''sprite-container '',
                img = Some \<lparr>src = ''/sprites/'' @ text_of nm @ ''.png'', alt = text_of nm,
                            display = [], pending = True, captured = nm\<rparr>\<rparr>,
             nameEl =
               \<lparr>name_className = ''pokemon-name '',
                textContent =
                  (if nick = JUndefined \<or> nick = JStr [] then text_of nm else text_of nick)\<rparr>\<rparr>)"
proof (cases "nm = JUndefined \<or> nm = JStr []")
  case True
  then have "\<not> truthy nm" by auto
  then show ?thesis using True by (simp add: build_card_empty)
next
  case False
  then obtain s where nm: "nm = JStr s" and s: "s \<noteq> []"
    using assms(1) by (cases nm) auto
  have t: "truthy nm" and ts: "toString nm = Inr s"
    using nm s by simp_all
  have l: "toString (if truthy nick then nick else nm) =
           Inr (if nick = JUndefined \<or> nick = JStr [] then text_of nm else text_of nick)"
    using assms(2) nm by (cases nick) auto
  show ?thesis
    using False nm build_card_named [OF t ts l, of i] by (simp add: sprite_url_def)
qed

lemma slot_entry_body:
  assumes "i < length xs" and "is_slot_entry (xs ! i)"
  shows "\<exists>c nm nick. get_field (xs ! i) ''name'' = Inr nm \<and>
           get_field (xs ! i) ''nickname'' = Inr nick \<and>
           build_card i nm nick = Inr c \<and> updateTeam_body (JArr xs) i = Inr c"
proof -
  obtain nm nick where r: "get_field (xs ! i) ''name'' = Inr nm"
      "get_field (xs ! i) ''nickname'' = Inr nick"
    and o: "optional_string nm" "optional_string nick"
    using assms(2) by (rule is_slot_entry_reads)
  obtain c where c: "build_card i nm nick = Inr c"
    using build_card_total [OF o] by blast
  have "updateTeam_body (JArr xs) i = build_card i nm nick"
    using assms(1) r by (intro updateTeam_body_reads [where e = "xs ! i"]) simp_all
  with r c show ?thesis by simp
qed

lemma body_past_end: "updateTeam_body (JArr xs) (length xs) = Inl TypeError"
  by (simp add: updateTeam_body_def read_slot_def)

lemma slot_entries_done:
  assumes "6 \<le> length xs" and "list_all is_slot_entry (take 6 xs)"
  shows "\<exists>st'. updateTeam (JArr xs) st = Done st'"
proof -
  have "updateTeam_body (JArr xs) j = Inr (projr (updateTeam_body (JArr xs) j))"
    if "j < 6" for j
  proof -
    have "j < length xs" and "is_slot_entry (xs ! j)"
      using assms that by (auto simp: list_all_length)
    then show ?thesis
      using slot_entry_body [of j xs] by auto
  qed
  then have "updateTeam (JArr xs) st =
      Done (st\<lparr>teamGrid := map (\<lambda>j. projr (updateTeam_body (JArr xs) j)) [0..<6]\<rparr>)"
    by (intro updateTeam_done) simp
  then show ?thesis by blast
qed

lemma scenario_done: "\<exists>st'. updateTeam (JArr scenario) page0 = Done st'"
  by (rule slot_entries_done) (simp_all add: scenario_def)

lemma blank_nickname_done:
  "\<exists>st'. updateTeam (JArr (JObj [(''name'', JStr ''pikachu''), (''nickname'', JStr [])] # tl scenario))
           page0 = Done st'"
  by (rule slot_entries_done) (simp_all add: scenario_def)

subsection \<open>The grid\<close>

text \<open>
  Claim C2, as stated, fails for a roster of six entries one of which is \<open>null\<close>:
  for \<open>[{name: "pikachu"}, null, {}, {}, {}, {}]\<close> the pass for index 1 throws on
  its property read, and the grid is left with one card.
\<close>

theorem null_entry_counterexample:
  "6 \<le> length [JObj [(''name'', JStr ''pikachu'')], JNull, JObj [], JObj [], JObj [], JObj []] \<and>
   updateTeam (JArr [JObj [(''name'', JStr ''pikachu'')], JNull, JObj [], JObj [], JObj [], JObj []])
     page0 = Thrown TypeError (page0\<lparr>teamGrid := [pikachu_card 0]\<rparr>) \<and>
   length (teamGrid (page0\<lparr>teamGrid := [pikachu_card 0]\<rparr>)) = 1"
proof -
  let ?p = "JArr [JObj [(''name'', JStr ''pikachu'')], JNull, JObj [], JObj [], JObj [], JObj []]"
  have e: "updateTeam_body ?p 1 = Inl TypeError"
    by (simp add: updateTeam_body_def read_slot_def)
  have c0: "updateTeam_body ?p 0 = Inr (pikachu_card 0)"
    by (simp add: updateTeam_body_def read_slot_def build_card_def js_or_def new_img_def
          Let_def pikachu_card_def sprite_url_def)
  have "updateTeam ?p page0 = Thrown TypeError (page0\<lparr>teamGrid := map pikachu_card [0..<1]\<rparr>)"
    using e c0 by (intro updateTeam_thrown) simp_all
  then show ?thesis by simp
qed

text \<open>
  Claim C2, amended. A roster with six entries or more, the first six of them slot
  entries, is drawn as exactly six cards, and nothing else of the page changes. The
  card at position \<open>i\<close> is the card of entry \<open>i\<close>: the card of an empty slot when
  the entry has no name or the empty text for it, and otherwise the card whose image
  is \<open>/sprites/<name>.png\<close> and whose label is the nickname, or the name when
  there is no nickname or an empty one. The entries after the sixth are never read:
  the roster cut to six gives the same page.
\<close>

theorem updateTeam_six_cards:
  assumes "6 \<le> length xs" and "list_all is_slot_entry (take 6 xs)"
  shows "\<exists>st'. updateTeam (JArr xs) st = Done st' \<and>
           st' = st\<lparr>teamGrid := teamGrid st'\<rparr> \<and>
           length (teamGrid st') = 6 \<and>
           (\<forall>i<6. \<exists>nm nick.
              get_field (xs ! i) ''name'' = Inr nm \<and>
              get_field (xs ! i) ''nickname'' = Inr nick \<and>
              teamGrid st' ! i =
                (if nm = JUndefined \<or> nm = JStr [] then
                   \<lparr>card_className = ''pokemon-card empty fade-in'',
                    animationDelay = animation_delay i,
                    spriteContainer =
                      \<lparr>sprite_className = ''sprite-container empty'', img = None\<rparr>,
                    nameEl =
                      \<lparr>name_className = ''pokemon-name empty'',
                       textContent = ''Empty Slot''\<rparr>\<rparr>
                 else
                   \<lparr>card_className = ''pokemon-card  fade-in'',
                    animationDelay = animation_delay i,
                    spriteContainer =
                      \<lparr>sprite_className = ''sprite-container '',
                       img = Some \<lparr>src = ''/sprites/'' @ text_of nm @ ''.png'',
                                   alt = text_of nm, display = [], pending = True,
                                   captured = nm\<rparr>\<rparr>,
                    nameEl =
                      \<lparr>name_className = ''pokemon-name '',
                       textContent =
                         (if nick = JUndefined \<or> nick = JStr [] then text_of nm
                          else text_of nick)\<rparr>\<rparr>)) \<and>
           updateTeam (JArr (take 6 xs)) st = Done st'"
proof -
  define cs where "cs = (\<lambda>i. projr (updateTeam_body (JArr xs) i))"
  have slots: "is_slot_entry (xs ! i)" if "i < 6" for i
    using assms that by (auto simp: list_all_length)
  have reads: "\<exists>nm nick. get_field (xs ! i) ''name'' = Inr nm \<and>
                 get_field (xs ! i) ''nickname'' = Inr nick \<and>
                 optional_string nm \<and> optional_string nick \<and>
                 updateTeam_body (JArr xs) i = build_card i nm nick"
    if i: "i < 6" for i
  proof -
    obtain nm nick where r: "get_field (xs ! i) ''name'' = Inr nm"
        "get_field (xs ! i) ''nickname'' = Inr nick"
      and o: "optional_string nm" "optional_string nick"
      using slots [OF i] by (rule is_slot_entry_reads)
    have "updateTeam_body (JArr xs) i = build_card i nm nick"
      using i assms(1) r by (intro updateTeam_body_reads [where e = "xs ! i"]) simp_all
    with r o show ?thesis by blast
  qed
  have body: "\<forall>j<6. updateTeam_body (JArr xs) j = Inr (cs j)"
  proof (intro allI impI)
    fix j :: nat assume "j < 6"
    then obtain nm nick where "optional_string nm" "optional_string nick"
      "updateTeam_body (JArr xs) j = build_card j nm nick"
      using reads by blast
    then show "updateTeam_body (JArr xs) j = Inr (cs j)"
      using slot_entry_card [of nm nick j] by (simp add: cs_def)
  qed
  have same: "\<forall>j<6. updateTeam_body (JArr (take 6 xs)) j = Inr (cs j)"
  proof (intro allI impI)
    fix j :: nat assume j: "j < 6"
    have "read_slot (JArr (take 6 xs)) j k = read_slot (JArr xs) j k" for k
      using j assms(1) by (simp add: read_slot_def)
    then have "updateTeam_body (JArr (take 6 xs)) j = updateTeam_body (JArr xs) j"
      by (simp add: updateTeam_body_def split: sum.splits)
    then show "updateTeam_body (JArr (take 6 xs)) j = Inr (cs j)"
      using body j by simp
  qed
  let ?st' = "st\<lparr>teamGrid := map cs [0..<6]\<rparr>"
  have d: "updateTeam (JArr xs) st = Done ?st'"
    using body by (rule updateTeam_done)
  have d': "updateTeam (JArr (take 6 xs)) st = Done ?st'"
    using same by (rule updateTeam_done)
  let ?card = "\<lambda>i nm nick. (if nm = JUndefined \<or> nm = JStr [] then
                   \<lparr>card_className = ''pokemon-card empty fade-in'',
                    animationDelay = animation_delay i,
                    spriteContainer =
                      \<lparr>sprite_className = ''sprite-container empty'', img = None\<rparr>,
                    nameEl =
                      \<lparr>name_className = ''pokemon-name empty'',
                       textContent = ''Empty Slot''\<rparr>\<rparr>
                 else
                   \<lparr>card_className = ''pokemon-card  fade-in'',
                    animationDelay = animation_delay i,
                    spriteContainer =
                      \<lparr>sprite_className = ''sprite-container '',
                       img = Some \<lparr>src = ''/sprites/'' @ text_of nm @ ''.png'',
                                   alt = text_of nm, display = [], pending = True,
                                   captured = nm\<rparr>\<rparr>,
                    nameEl =
                      \<lparr>name_className = ''pokemon-name '',
                       textContent =
                         (if nick = JUndefined \<or> nick = JStr [] then text_of nm
                          else text_of nick)\<rparr>\<rparr>)"
  have explicit: "\<exists>nm nick.
              get_field (xs ! i) ''name'' = Inr nm \<and>
              get_field (xs ! i) ''nickname'' = Inr nick \<and>
              teamGrid ?st' ! i = ?card i nm nick"
    if i: "i < 6" for i
  proof -
    obtain nm nick where r: "get_field (xs ! i) ''name'' = Inr nm"
        "get_field (xs ! i) ''nickname'' = Inr nick"
      and o: "optional_string nm" "optional_string nick"
      and b: "updateTeam_body (JArr xs) i = build_card i nm nick"
      using reads [OF i] by blast
    have "teamGrid ?st' ! i = cs i"
      using i by (simp del: upt_Suc)
    then have "Inr (teamGrid ?st' ! i) = updateTeam_body (JArr xs) i"
      using body i by simp
    also have "\<dots> = build_card i nm nick"
      by (rule b)
    also have "\<dots> = Inr (?card i nm nick)"
      by (rule slot_entry_card [OF o])
    finally have "teamGrid ?st' ! i = ?card i nm nick"
      by (simp only: sum.inject)
    with r show ?thesis by blast
  qed
  have len: "length (teamGrid ?st') = 6" by simp
  have frame: "?st' = st\<lparr>teamGrid := teamGrid ?st'\<rparr>" by simp
  show ?thesis
    using d d' len frame explicit by (intro exI [of _ ?st']) blast
qed

theorem updateTeam_six_cards_witness:
  "6 \<le> length (scenario @ [JNull]) \<and>
   list_all is_slot_entry (take 6 (scenario @ [JNull])) \<and>
   (\<exists>st'. updateTeam (JArr (scenario @ [JNull])) page0 = Done st' \<and>
          teamGrid st' =
            [sparky_card 0, placeholder_card 1, placeholder_card 2, placeholder_card 3,
             placeholder_card 4, placeholder_card 5] \<and>
          updateTeam (JArr (take 6 (scenario @ [JNull]))) page0 = Done st')"
proof -
  let ?xs = "scenario @ [JNull]"
  have len: "6 \<le> length ?xs"
    by (simp add: scenario_def)
  have slots: "list_all is_slot_entry (take 6 ?xs)"
    by (simp add: scenario_def)
  obtain st' where d: "updateTeam (JArr ?xs) page0 = Done st'"
    and l: "length (teamGrid st') = 6"
    and c: "\<forall>i<6. \<exists>nm nick.
              get_field (?xs ! i) ''name'' = Inr nm \<and>
              get_field (?xs ! i) ''nickname'' = Inr nick \<and>
              teamGrid st' ! i =
                (if nm = JUndefined \<or> nm = JStr [] then
                   \<lparr>card_className = ''pokemon-card empty fade-in'',
                    animationDelay = animation_delay i,
                    spriteContainer =
                      \<lparr>sprite_className = ''sprite-container empty'', img = None\<rparr>,
                    nameEl =
                      \<lparr>name_className = ''pokemon-name empty'',
                       textContent = ''Empty Slot''\<rparr>\<rparr>
                 else
                   \<lparr>card_className = ''pokemon-card  fade-in'',
                    animationDelay = animation_delay i,
                    spriteContainer =
                      \<lparr>sprite_className = ''sprite-container '',
                       img = Some \<lparr>src = ''/sprites/'' @ text_of nm @ ''.png'',
                                   alt = text_of nm, display = [], pending = True,
                                   captured = nm\<rparr>\<rparr>,
                    nameEl =
                      \<lparr>name_className = ''pokemon-name '',
                       textContent =
                         (if nick = JUndefined \<or> nick = JStr [] then text_of nm
                          else text_of nick)\<rparr>\<rparr>)"
    and t: "updateTeam (JArr (take 6 ?xs)) page0 = Done st'"
    using updateTeam_six_cards [OF len slots, of page0] by blast
  have n0: "teamGrid st' ! 0 = sparky_card 0"
    using c [rule_format, of 0] by (auto simp: scenario_def sparky_card_def)
  have n1: "teamGrid st' ! 1 = placeholder_card 1"
    using c [rule_format, of 1] by (auto simp: scenario_def placeholder_card_def)
  have n2: "teamGrid st' ! 2 = placeholder_card 2"
    using c [rule_format, of 2] by (auto simp: scenario_def placeholder_card_def)
  have n3: "teamGrid st' ! 3 = placeholder_card 3"
    using c [rule_format, of 3] by (auto simp: scenario_def placeholder_card_def)
  have n4: "teamGrid st' ! 4 = placeholder_card 4"
    using c [rule_format, of 4] by (auto simp: scenario_def placeholder_card_def)
  have n5: "teamGrid st' ! 5 = placeholder_card 5"
    using c [rule_format, of 5] by (auto simp: scenario_def placeholder_card_def)
  have "teamGrid st' =
            [sparky_card 0, placeholder_card 1, placeholder_card 2, placeholder_card 3,
             placeholder_card 4, placeholder_card 5]"
    using l n0 n1 n2 n3 n4 n5
    by (simp add: list_eq_iff_nth_eq All_less_Suc eval_nat_numeral)
  then show ?thesis
    using len slots d t by blast
qed

text \<open>
  Claim C4. A roster with fewer than six entries makes \<open>updateTeam\<close> throw a
  TypeError to its caller, no later than the first index that is missing: the read
  past the end gives \<open>undefined\<close>, and the pass of that index throws on its
  property read. When the entries that are there are slot entries, the passes before
  it all complete, and the throw happens at that index exactly.
\<close>

theorem short_input_throws:
  assumes "length xs < 6"
  shows "(\<exists>st'. updateTeam (JArr xs) st = Thrown TypeError st' \<and>
                length (teamGrid st') \<le> length xs) \<and>
         get_index (JArr xs) (length xs) = Inr JUndefined \<and>
         updateTeam_body (JArr xs) (length xs) = Inl TypeError \<and>
         (list_all is_slot_entry xs \<longrightarrow>
            (\<exists>st'. updateTeam (JArr xs) st = Thrown TypeError st' \<and>
                   length (teamGrid st') = length xs \<and>
                   (\<forall>j<length xs. updateTeam_body (JArr xs) j = Inr (teamGrid st' ! j))))"
proof -
  let ?p = "JArr xs"
  let ?cs = "\<lambda>j. projr (updateTeam_body ?p j)"
  have past: "updateTeam_body ?p (length xs) = Inl TypeError"
    by (rule body_past_end)
  obtain k e where k: "k \<le> length xs" and ke: "updateTeam_body ?p k = Inl e"
    and before: "\<forall>j<k. updateTeam_body ?p j = Inr (?cs j)"
    using past by (rule first_throw)
  have e: "e = TypeError" using ke by (rule updateTeam_body_error)
  have "updateTeam ?p st = Thrown e (st\<lparr>teamGrid := map ?cs [0..<k]\<rparr>)"
    using k assms ke before by (intro updateTeam_thrown) auto
  then have first: "\<exists>st'. updateTeam ?p st = Thrown TypeError st' \<and>
                length (teamGrid st') \<le> length xs"
    using k e by simp
  have typed: "\<exists>st'. updateTeam ?p st = Thrown TypeError st' \<and>
                   length (teamGrid st') = length xs \<and>
                   (\<forall>j<length xs. updateTeam_body ?p j = Inr (teamGrid st' ! j))"
    if slots: "list_all is_slot_entry xs"
  proof -
    have ok: "\<forall>j<length xs. updateTeam_body ?p j = Inr (?cs j)"
    proof (intro allI impI)
      fix j assume j: "j < length xs"
      then have "is_slot_entry (xs ! j)" using slots by (simp add: list_all_length)
      then show "updateTeam_body ?p j = Inr (?cs j)"
        using slot_entry_body [OF j] by auto
    qed
    have "updateTeam ?p st = Thrown TypeError (st\<lparr>teamGrid := map ?cs [0..<length xs]\<rparr>)"
      using assms past ok by (intro updateTeam_thrown) auto
    then show ?thesis using ok by simp
  qed
  show ?thesis
    using first past typed by simp
qed

theorem short_input_throws_witness:
  "length [JObj [(''name'', JStr ''pikachu'')]] < 6 \<and>
   list_all is_slot_entry [JObj [(''name'', JStr ''pikachu'')]] \<and>
   (\<exists>st'. updateTeam (JArr [JObj [(''name'', JStr ''pikachu'')]]) page0 = Thrown TypeError st' \<and>
          length (teamGrid st') = 1)"
proof -
  have len: "length [JObj [(''name'', JStr ''pikachu'')]] < 6"
    by simp
  have slots: "list_all is_slot_entry [JObj [(''name'', JStr ''pikachu'')]]"
    by simp
  show ?thesis
    using len slots short_input_throws [OF len, of page0]
    by auto
qed

subsection \<open>Labels\<close>

text \<open>
  Claim C7. When the entry at index \<open>i\<close> has no \<open>name\<close> or has the empty text
  for it, the pass for that index builds the card of an empty slot: the label is
  \<open>Empty Slot\<close>, the sprite container has no image, and the card, the container
  and the label carry the class \<open>empty\<close>. The nickname is not constrained. Whenever
  \<open>updateTeam\<close> completes, this card is the one at position \<open>i\<close> of the grid.
\<close>

theorem empty_name_placeholder:
  assumes "get_index pokemon i = Inr entry"
    and "get_field entry ''name'' = Inr nm"
    and "nm = JUndefined \<or> nm = JStr []"
  shows "\<exists>c. updateTeam_body pokemon i = Inr c \<and>
           slot_label pokemon i = Inr ''Empty Slot'' \<and>
           textContent (nameEl c) = ''Empty Slot'' \<and>
           img (spriteContainer c) = None \<and>
           ''empty'' \<in> set (classList (card_className c)) \<and>
           ''empty'' \<in> set (classList (sprite_className (spriteContainer c))) \<and>
           ''empty'' \<in> set (classList (name_className (nameEl c))) \<and>
           (\<forall>st st'. i < 6 \<and> updateTeam pokemon st = Done st' \<longrightarrow> teamGrid st' ! i = c)"
proof -
  have "\<not> nullish entry"
    using assms(2) get_field_Inr_iff [of entry "''name''"] by auto
  then obtain nick where nick: "get_field entry ''nickname'' = Inr nick"
    using get_field_Inr_iff [of entry "''nickname''"] by auto
  have falsy: "\<not> truthy nm" using assms(3) by auto
  let ?c = "\<lparr>card_className = ''pokemon-card empty fade-in'',
          animationDelay = animation_delay i,
          spriteContainer = \<lparr>sprite_className = ''sprite-container empty'', img = None\<rparr>,
          nameEl = \<lparr>name_className = ''pokemon-name empty'', textContent = ''Empty Slot''\<rparr>\<rparr>"
  have body: "updateTeam_body pokemon i = Inr ?c"
    using updateTeam_body_reads [OF assms(1,2) nick] build_card_empty [OF falsy] by simp
  have grid: "\<forall>st st'. i < 6 \<and> updateTeam pokemon st = Done st' \<longrightarrow> teamGrid st' ! i = ?c"
    using updateTeam_Done_nth(1) [of pokemon _ _ i] body by auto
  have cls: "''empty'' \<in> set (classList ''pokemon-card empty fade-in'')"
    "''empty'' \<in> set (classList ''sprite-container empty'')"
    "''empty'' \<in> set (classList ''pokemon-name empty'')"
    by (simp_all add: classList_def)
  show ?thesis
    using body grid cls by (intro exI [of _ ?c]) (simp add: slot_label_def)
qed

theorem empty_name_placeholder_witness:
  "get_index (JArr scenario) 1 = Inr (JObj []) \<and>
   get_field (JObj []) ''name'' = Inr JUndefined \<and>
   slot_label (JArr scenario) 1 = Inr ''Empty Slot'' \<and>
   (\<exists>st'. (1 :: nat) < 6 \<and> updateTeam (JArr scenario) page0 = Done st' \<and>
          textContent (nameEl (teamGrid st' ! 1)) = ''Empty Slot'' \<and>
          img (spriteContainer (teamGrid st' ! 1)) = None)"
proof -
  have i: "get_index (JArr scenario) 1 = Inr (JObj [])"
    by (simp add: scenario_def)
  have n: "get_field (JObj []) ''name'' = Inr JUndefined"
    by simp
  obtain st' where d: "updateTeam (JArr scenario) page0 = Done st'"
    using scenario_done by blast
  show ?thesis
    using i n d empty_name_placeholder [OF i n] by force
qed

text \<open>
  Claim C8, as stated, fails for a nickname that is present and empty: the entry
  \<open>{name: "pikachu", nickname: ""}\<close> is labelled with the name, not with its
  nickname.
\<close>

theorem empty_nickname_counterexample:
  "read_slot (JArr [JObj [(''name'', JStr ''pikachu''), (''nickname'', JStr [])]]) 0 ''nickname''
     = Inr (JStr []) \<and>
   slot_label (JArr [JObj [(''name'', JStr ''pikachu''), (''nickname'', JStr [])]]) 0
     = Inr ''pikachu'' \<and>
   slot_label (JArr [JObj [(''name'', JStr ''pikachu''), (''nickname'', JStr [])]]) 0
     \<noteq> toString (JStr [])"
  by (simp add: read_slot_def slot_label_def updateTeam_body_def build_card_def js_or_def
        new_img_def Let_def)

text \<open>
  Claim C8, amended. For an entry whose name is not empty, the label is the nickname
  when the nickname is truthy (for a text: present and not empty), and the name
  otherwise; \<open>textContent\<close> holds it as text.
\<close>

theorem label_nickname_or_name:
  assumes "get_index pokemon i = Inr entry"
    and "get_field entry ''name'' = Inr nm"
    and "get_field entry ''nickname'' = Inr nick"
    and "truthy nm"
    and "toString nm = Inr s"
  shows "slot_label pokemon i = toString (if truthy nick then nick else nm) \<and>
         (\<forall>st st'. i < 6 \<and> updateTeam pokemon st = Done st' \<longrightarrow>
            Inr (textContent (nameEl (teamGrid st' ! i))) =
              toString (if truthy nick then nick else nm))"
proof -
  have body: "updateTeam_body pokemon i = build_card i nm nick"
    using assms(1-3) by (rule updateTeam_body_reads)
  have lbl: "slot_label pokemon i = toString (if truthy nick then nick else nm)"
  proof (cases "toString (if truthy nick then nick else nm)")
    case (Inl e)
    then have "build_card i nm nick = Inl e"
      using assms(4,5)
      by (cases "truthy nick") (simp_all add: build_card_def js_or_def new_img_def Let_def)
    then show ?thesis
      using body Inl by (simp add: slot_label_def)
  next
    case (Inr l)
    then show ?thesis
      using body build_card_named [OF assms(4,5) Inr] by (simp add: slot_label_def)
  qed
  have "Inr (textContent (nameEl (teamGrid st' ! i))) =
          toString (if truthy nick then nick else nm)"
    if "i < 6" and "updateTeam pokemon st = Done st'" for st st'
  proof -
    have "updateTeam_body pokemon i = Inr (teamGrid st' ! i)"
      using that by (intro updateTeam_Done_nth(1)) auto
    then show ?thesis using lbl by (simp add: slot_label_def)
  qed
  with lbl show ?thesis by blast
qed

theorem label_nickname_or_name_witness:
  "get_index (JArr scenario) 0 =
     Inr (JObj [(''name'', JStr ''pikachu''), (''nickname'', JStr ''Sparky'')]) \<and>
   get_field (JObj [(''name'', JStr ''pikachu''), (''nickname'', JStr ''Sparky'')]) ''name''
     = Inr (JStr ''pikachu'') \<and>
   get_field (JObj [(''name'', JStr ''pikachu''), (''nickname'', JStr ''Sparky'')]) ''nickname''
     = Inr (JStr ''Sparky'') \<and>
   truthy (JStr ''pikachu'') \<and>
   toString (JStr ''pikachu'') = Inr ''pikachu'' \<and>
   slot_label (JArr scenario) 0 = Inr ''Sparky'' \<and>
   (\<exists>st'. (0 :: nat) < 6 \<and> updateTeam (JArr scenario) page0 = Done st' \<and>
          textContent (nameEl (teamGrid st' ! 0)) = ''Sparky'')"
proof -
  let ?e = "JObj [(''name'', JStr ''pikachu''), (''nickname'', JStr ''Sparky'')]"
  have i: "get_index (JArr scenario) 0 = Inr ?e"
    by (simp add: scenario_def)
  have n: "get_field ?e ''name'' = Inr (JStr ''pikachu'')"
    by simp
  have k: "get_field ?e ''nickname'' = Inr (JStr ''Sparky'')"
    by simp
  have t: "truthy (JStr ''pikachu'')" by simp
  have s: "toString (JStr ''pikachu'') = Inr ''pikachu''" by simp
  obtain st' where d: "updateTeam (JArr scenario) page0 = Done st'"
    using scenario_done by blast
  have "slot_label (JArr scenario) 0 = Inr ''Sparky'' \<and>
        textContent (nameEl (teamGrid st' ! 0)) = ''Sparky''"
    using d label_nickname_or_name [OF i n k t s] by force
  then show ?thesis
    using i n k d by auto
qed

text \<open>
  Claim C10. An entry with a name that is not empty and with the empty text as its
  nickname is labelled with its name, as if it had no nickname.
\<close>

theorem empty_nickname_shows_name:
  assumes "get_index pokemon i = Inr entry"
    and "get_field entry ''name'' = Inr (JStr s)"
    and "s \<noteq> []"
    and "get_field entry ''nickname'' = Inr (JStr [])"
  shows "slot_label pokemon i = Inr s \<and>
         (\<forall>st st'. i < 6 \<and> updateTeam pokemon st = Done st' \<longrightarrow>
            textContent (nameEl (teamGrid st' ! i)) = s)"
proof -
  have body: "updateTeam_body pokemon i = build_card i (JStr s) (JStr [])"
    using assms(1,2,4) by (rule updateTeam_body_reads)
  have card: "build_card i (JStr s) (JStr []) =
     Inr \<lparr>card_className = ''pokemon-card  fade-in'',
          animationDelay = animation_delay i,
          spriteContainer =
            \<lparr>sprite_className = ''sprite-container '',
             img = Some \<lparr>src = sprite_url s ''.png'', alt = s, display = [],
                         pending = True, captured = JStr s\<rparr>\<rparr>,
          nameEl = \<lparr>name_className = ''pokemon-name '', textContent = s\<rparr>\<rparr>"
    using assms(3) by (intro build_card_named) simp_all
  have lbl: "slot_label pokemon i = Inr s"
    using body card by (simp add: slot_label_def)
  have "textContent (nameEl (teamGrid st' ! i)) = s"
    if "i < 6" and "updateTeam pokemon st = Done st'" for st st'
  proof -
    have "updateTeam_body pokemon i = Inr (teamGrid st' ! i)"
      using that by (intro updateTeam_Done_nth(1)) auto
    then have "Inr (textContent (nameEl (teamGrid st' ! i))) = slot_label pokemon i"
      by (simp add: slot_label_def)
    then show ?thesis using lbl by simp
  qed
  with lbl show ?thesis by blast
qed

theorem empty_nickname_shows_name_witness:
  "get_index (JArr (JObj [(''name'', JStr ''pikachu''), (''nickname'', JStr [])] # tl scenario)) 0 =
     Inr (JObj [(''name'', JStr ''pikachu''), (''nickname'', JStr [])]) \<and>
   get_field (JObj [(''name'', JStr ''pikachu''), (''nickname'', JStr [])]) ''name''
     = Inr (JStr ''pikachu'') \<and>
   ''pikachu'' \<noteq> [] \<and>
   get_field (JObj [(''name'', JStr ''pikachu''), (''nickname'', JStr [])]) ''nickname''
     = Inr (JStr []) \<and>
   slot_label (JArr (JObj [(''name'', JStr ''pikachu''), (''nickname'', JStr [])] # tl scenario)) 0
     = Inr ''pikachu'' \<and>
   (\<exists>st'. (0 :: nat) < 6 \<and>
      updateTeam (JArr (JObj [(''name'', JStr ''pikachu''), (''nickname'', JStr [])] # tl scenario))
        page0 = Done st' \<and>
      textContent (nameEl (teamGrid st' ! 0)) = ''pikachu'')"
proof -
  let ?e = "JObj [(''name'', JStr ''pikachu''), (''nickname'', JStr [])]"
  let ?p = "JArr (?e # tl scenario)"
  have i: "get_index ?p 0 = Inr ?e" by simp
  have n: "get_field ?e ''name'' = Inr (JStr ''pikachu'')" by simp
  have ne: "''pikachu'' \<noteq> []" by simp
  have k: "get_field ?e ''nickname'' = Inr (JStr [])" by simp
  obtain st' where d: "updateTeam ?p page0 = Done st'"
    using blank_nickname_done by blast
  have "slot_label ?p 0 = Inr ''pikachu'' \<and> textContent (nameEl (teamGrid st' ! 0)) = ''pikachu''"
    using d empty_nickname_shows_name [OF i n ne k] by force
  then show ?thesis
    using n k d by auto
qed

text \<open>
  Claim C5 does not hold of the script. For the roster \<open>[{name: "pikachu"}]\<close>
  the entry at index 1 is missing: the read gives \<open>undefined\<close>, the pass throws a
  TypeError on \<open>pokemon[1].name\<close> instead of drawing an empty slot, and the grid
  is left with the one card built before.
\<close>

theorem missing_entry_throws:
  "get_index (JArr [JObj [(''name'', JStr ''pikachu'')]]) 1 = Inr JUndefined \<and>
   updateTeam_body (JArr [JObj [(''name'', JStr ''pikachu'')]]) 1 = Inl TypeError \<and>
   updateTeam (JArr [JObj [(''name'', JStr ''pikachu'')]]) page0 =
     Thrown TypeError (page0\<lparr>teamGrid := [pikachu_card 0]\<rparr>)"
proof -
  let ?p = "JArr [JObj [(''name'', JStr ''pikachu'')]]"
  have e: "updateTeam_body ?p 1 = Inl TypeError"
    by (simp add: updateTeam_body_def read_slot_def)
  have c0: "updateTeam_body ?p 0 = Inr (pikachu_card 0)"
    by (simp add: updateTeam_body_def read_slot_def build_card_def js_or_def new_img_def
          Let_def pikachu_card_def sprite_url_def)
  have "updateTeam ?p page0 = Thrown TypeError (page0\<lparr>teamGrid := map pikachu_card [0..<1]\<rparr>)"
    using e c0 by (intro updateTeam_thrown) simp_all
  then show ?thesis using e by simp
qed

subsection \<open>Messages\<close>

text \<open>
  Claim C3. A message whose body \<open>JSON.parse\<close> rejects is logged and dropped:
  the handler completes (nothing is thrown past it), and the page after it is the
  page before it with one more console entry, so the grid, the socket, the timers
  and the list of connections are as they were.
\<close>

theorem malformed_message_discarded:
  assumes "parse body = Inl e"
  shows "ws_onmessage parse body st =
           Done (st\<lparr>console := console st @ [LogError ''Error parsing message:'' e]\<rparr>) \<and>
         (\<exists>st'. ws_onmessage parse body st = Done st' \<and>
                teamGrid st' = teamGrid st \<and> ws st' = ws st \<and>
                timers st' = timers st \<and> opened st' = opened st)"
  using assms by (simp add: ws_onmessage_def onmessage_try_def)

theorem malformed_message_discarded_witness:
  "toy_parse ''{oops'' = Inl SyntaxError \<and>
   ws_onmessage toy_parse ''{oops'' page0 =
     Done (page0\<lparr>console := console page0 @ [LogError ''Error parsing message:'' SyntaxError]\<rparr>)"
proof -
  have p: "toy_parse ''{oops'' = Inl SyntaxError"
    by (simp add: toy_parse_def)
  show ?thesis
    using p malformed_message_discarded [of toy_parse "''{oops''" SyntaxError page0] by simp
qed

text \<open>
  Claim C9. When the body decodes, and the pass for index \<open>k < 6\<close> is the first
  to throw, \<open>updateTeam\<close> throws with the grid cleared and refilled with the
  \<open>k\<close> cards of the passes before it. The handler catches the error and logs it:
  it completes, the socket is as it was, and the grid holds exactly those \<open>k\<close>
  cards, so it differs from any grid that did not have \<open>k\<close> cards.
\<close>

theorem throw_in_updateTeam_leaves_partial_grid:
  assumes "parse body = Inr data"
    and "get_field data ''pokemon'' = Inr pokemon"
    and "k < 6"
    and "updateTeam_body pokemon k = Inl e"
    and "\<forall>j<k. updateTeam_body pokemon j = Inr (cs j)"
  shows "updateTeam pokemon st = Thrown e (st\<lparr>teamGrid := map cs [0..<k]\<rparr>) \<and>
         ws_onmessage parse body st =
           Done (st\<lparr>teamGrid := map cs [0..<k],
                    console := console st @ [LogError ''Error parsing message:'' e]\<rparr>) \<and>
         (\<exists>st'. ws_onmessage parse body st = Done st' \<and> ws st' = ws st \<and>
                timers st' = timers st \<and> opened st' = opened st \<and>
                length (teamGrid st') = k \<and>
                (length (teamGrid st) \<noteq> k \<longrightarrow> teamGrid st' \<noteq> teamGrid st))"
proof -
  have t: "updateTeam pokemon st = Thrown e (st\<lparr>teamGrid := map cs [0..<k]\<rparr>)"
    using assms(3-5) by (rule updateTeam_thrown)
  have m: "ws_onmessage parse body st =
           Done (st\<lparr>teamGrid := map cs [0..<k],
                    console := console st @ [LogError ''Error parsing message:'' e]\<rparr>)"
    using assms(1,2) t by (simp add: ws_onmessage_def onmessage_try_def)
  have len: "length (map cs [0..<k]) = k"
    by simp
  have d: "length (teamGrid st) \<noteq> k \<longrightarrow> map cs [0..<k] \<noteq> teamGrid st"
    using len by metis
  show ?thesis
    using t m d by simp
qed

theorem throw_in_updateTeam_leaves_partial_grid_witness:
  "toy_parse ''{\"pokemon\":[{\"name\":\"pikachu\"}]}'' =
     Inr (JObj [(''pokemon'', JArr [JObj [(''name'', JStr ''pikachu'')]])]) \<and>
   get_field (JObj [(''pokemon'', JArr [JObj [(''name'', JStr ''pikachu'')]])]) ''pokemon'' =
     Inr (JArr [JObj [(''name'', JStr ''pikachu'')]]) \<and>
   (1 :: nat) < 6 \<and>
   updateTeam_body (JArr [JObj [(''name'', JStr ''pikachu'')]]) 1 = Inl TypeError \<and>
   updateTeam_body (JArr [JObj [(''name'', JStr ''pikachu'')]]) 0 = Inr (pikachu_card 0) \<and>
   (\<exists>st'. ws_onmessage toy_parse ''{\"pokemon\":[{\"name\":\"pikachu\"}]}'' page0 = Done st' \<and>
          teamGrid st' = [pikachu_card 0] \<and>
          console st' = [LogError ''Error parsing message:'' TypeError] \<and>
          ws st' = ws page0 \<and>
          length (teamGrid page0) \<noteq> 1 \<and> teamGrid st' \<noteq> teamGrid page0)"
proof -
  let ?p = "JArr [JObj [(''name'', JStr ''pikachu'')]]"
  have p: "toy_parse ''{\"pokemon\":[{\"name\":\"pikachu\"}]}'' = Inr (JObj [(''pokemon'', ?p)])"
    by (simp add: toy_parse_def)
  have f: "get_field (JObj [(''pokemon'', ?p)]) ''pokemon'' = Inr ?p"
    by simp
  have k: "(1 :: nat) < 6" by simp
  have e: "updateTeam_body ?p 1 = Inl TypeError"
    by (simp add: updateTeam_body_def read_slot_def)
  have c0: "updateTeam_body ?p 0 = Inr (pikachu_card 0)"
    by (simp add: updateTeam_body_def read_slot_def build_card_def js_or_def new_img_def
          Let_def pikachu_card_def sprite_url_def)
  have b: "\<forall>j<1. updateTeam_body ?p j = Inr (pikachu_card j)"
    using c0 by simp
  show ?thesis
    using p f k e c0 b
      throw_in_updateTeam_leaves_partial_grid
        [of toy_parse "''{\"pokemon\":[{\"name\":\"pikachu\"}]}''" "JObj [(''pokemon'', ?p)]"
            ?p 1 TypeError pikachu_card page0]
    by (simp add: page0_def)
qed

subsection \<open>Reconnection\<close>

lemma ws_onclose_eq:
  "ws_onclose st =
     st\<lparr>console := console st @ [Log ''Disconnected from server''],
        timers := timers st @ [(now st + 2000, Connect)]\<rparr>"
  by (simp add: ws_onclose_def setTimeout_def)

lemma close_and_wait_early:
  assumes "timers st = []" and "ms < 2000"
  shows "close_and_wait ms st =
     st\<lparr>console := console st @ [Log ''Disconnected from server''],
        now := now st + ms, timers := [(now st + 2000, Connect)]\<rparr>"
  using assms by (simp add: close_and_wait_def ws_onclose_eq advance_def fire_due_def)

lemma close_and_wait_due:
  assumes "timers st = []" and "2000 \<le> ms"
  shows "close_and_wait ms st =
     connect (st\<lparr>console := console st @ [Log ''Disconnected from server''],
                now := now st + ms, timers := []\<rparr>)"
  using assms by (simp add: close_and_wait_def ws_onclose_eq advance_def fire_due_def)

lemma connect_fields:
  "timers (connect st) = timers st"
  "length (opened (connect st)) = Suc (length (opened st))"
  "\<exists>u. opened (connect st) = opened st @ [u] \<and> ws (connect st) = Some \<lparr>url = u, readyState = CONNECTING\<rparr>"
  by (simp_all add: connect_def Let_def)

lemma retry_rounds:
  assumes "timers st = []"
  shows "timers ((close_and_wait 2000 ^^ n) st) = [] \<and>
         length (opened ((close_and_wait 2000 ^^ n) st)) = length (opened st) + n"
proof (induction n)
  case 0
  show ?case using assms by simp
next
  case (Suc n)
  let ?s = "(close_and_wait 2000 ^^ n) st"
  have "close_and_wait 2000 ?s =
     connect (?s\<lparr>console := console ?s @ [Log ''Disconnected from server''],
                now := now ?s + 2000, timers := []\<rparr>)"
    using Suc by (intro close_and_wait_due) simp_all
  then show ?case
    using Suc by (simp add: connect_fields)
qed

text \<open>
  Claim C6. The close handler takes no account of why the socket closed or of how
  often it has closed before. It registers exactly one timer, due 2000 ms later,
  whose callback is \<open>connect\<close>, and opens no connection itself. With no other
  timer pending, no connection is opened before 2000 ms have passed, exactly one is
  opened once they have, and \<open>n\<close> rounds of closing and waiting open \<open>n\<close>
  connections, for every \<open>n\<close>.
\<close>

theorem close_schedules_one_reconnect:
  "timers (ws_onclose st) = timers st @ [(now st + 2000, Connect)] \<and>
   opened (ws_onclose st) = opened st \<and>
   (timers st = [] \<and> ms < 2000 \<longrightarrow>
      opened (close_and_wait ms st) = opened st \<and>
      timers (close_and_wait ms st) = [(now st + 2000, Connect)]) \<and>
   (timers st = [] \<and> 2000 \<le> ms \<longrightarrow>
      length (opened (close_and_wait ms st)) = Suc (length (opened st)) \<and>
      timers (close_and_wait ms st) = []) \<and>
   (timers st = [] \<longrightarrow>
      length (opened ((close_and_wait 2000 ^^ n) st)) = length (opened st) + n)"
proof -
  have a: "timers (ws_onclose st) = timers st @ [(now st + 2000, Connect)]"
    "opened (ws_onclose st) = opened st"
    by (simp_all add: ws_onclose_eq)
  have b: "opened (close_and_wait ms st) = opened st \<and>
      timers (close_and_wait ms st) = [(now st + 2000, Connect)]"
    if "timers st = []" and "ms < 2000"
    using close_and_wait_early [OF that] by simp
  have c: "length (opened (close_and_wait ms st)) = Suc (length (opened st)) \<and>
      timers (close_and_wait ms st) = []"
    if "timers st = []" and "2000 \<le> ms"
    using close_and_wait_due [OF that] by (simp add: connect_fields)
  have d: "length (opened ((close_and_wait 2000 ^^ n) st)) = length (opened st) + n"
    if "timers st = []"
    using retry_rounds [OF that] by simp
  show ?thesis
    using a b c d by blast
qed

theorem close_schedules_one_reconnect_witness:
  "timers page0 = [] \<and> (1999 :: nat) < 2000 \<and> (2000 :: nat) \<le> 2000 \<and>
   timers (ws_onclose page0) = [(2000, Connect)] \<and>
   opened (close_and_wait 1999 page0) = [] \<and>
   length (opened (close_and_wait 2000 page0)) = 1 \<and>
   length (opened ((close_and_wait 2000 ^^ 3) page0)) = 3"
proof -
  have t: "timers page0 = []" "opened page0 = []" "now page0 = 0"
    by (simp_all add: page0_def)
  show ?thesis
    using t close_schedules_one_reconnect [of page0 1999 3]
      close_schedules_one_reconnect [of page0 2000 3]
    by simp
qed

subsection \<open>The image fallback\<close>

declare load_sprite.simps [simp del]

lemma endsWith_sprite_url:
  "length e = length ext \<Longrightarrow> endsWith (sprite_url s e) ext = (e = ext)"
proof -
  assume len: "length e = length ext"
  have "endsWith (a @ e) ext = (e = ext)" for a
    using len by (auto simp: endsWith_def)
  from this [of "''/sprites/'' @ s"] show ?thesis
    by (simp add: sprite_url_def)
qed

lemma build_card_sprite:
  assumes "truthy nm" and "build_card i nm nick = Inr c" and "toString nm = Inr s"
  shows "spriteContainer c =
           \<lparr>sprite_className = ''sprite-container '',
            img = Some \<lparr>src = sprite_url s ''.png'', alt = s, display = [],
                        pending = True, captured = nm\<rparr>\<rparr>"
  using assms
  by (auto simp: build_card_def js_or_def new_img_def Let_def split: sum.splits)

lemma img_onerror_png:
  assumes "toString (captured im) = Inr s" and "src im = sprite_url s ''.png''"
  shows "img_onerror sc im = Inr (sc\<lparr>img := Some (im\<lparr>src := sprite_url s ''.gif'', pending := True\<rparr>)\<rparr>)"
  using assms by (simp add: img_onerror_def endsWith_sprite_url)

lemma img_onerror_gif:
  assumes "toString (captured im) = Inr s" and "src im = sprite_url s ''.gif''"
  shows "img_onerror sc im = Inr (sc\<lparr>img := Some (im\<lparr>src := sprite_url s ''.jpg'', pending := True\<rparr>)\<rparr>)"
  using assms by (simp add: img_onerror_def endsWith_sprite_url)

lemma img_onerror_jpg:
  assumes "src im = sprite_url s ''.jpg''"
  shows "img_onerror sc im =
     Inr (sc\<lparr>sprite_className := classList_add ''empty'' (sprite_className sc),
             img := Some (im\<lparr>display := ''none''\<rparr>)\<rparr>)"
  using assms by (simp add: img_onerror_def endsWith_sprite_url)

lemma load_sprite_settled:
  "load_sprite ok \<lparr>sprite_className = cn, img = Some (im\<lparr>pending := False\<rparr>)\<rparr> =
     ([], \<lparr>sprite_className = cn, img = Some (im\<lparr>pending := False\<rparr>)\<rparr>)"
  by (simp add: load_sprite.simps)

lemma load_sprite_fail:
  assumes "\<not> ok (src im)" and "pending im"
    and "img_onerror \<lparr>sprite_className = cn, img = Some (im\<lparr>pending := False\<rparr>)\<rparr>
           (im\<lparr>pending := False\<rparr>) = Inr sc'"
    and "load_sprite ok sc' = (us, r)"
  shows "load_sprite ok \<lparr>sprite_className = cn, img = Some im\<rparr> = (src im # us, r)"
  using assms by (simp add: load_sprite.simps [of ok "\<lparr>sprite_className = cn, img = Some im\<rparr>"])

text \<open>
  Claim C1. For a slot whose name is not empty, when none of the three addresses
  loads, the browser requests exactly \<open>/sprites/<name>.png\<close>,
  \<open>/sprites/<name>.gif\<close> and \<open>/sprites/<name>.jpg\<close>, in this order and each
  once. After the third failure the image is hidden (\<open>display\<close> is \<open>none\<close>),
  no load is pending, and the container carries the class \<open>empty\<close>.
\<close>

theorem fallback_chain:
  assumes "truthy nm" and "build_card i nm nick = Inr c" and "toString nm = Inr s"
    and "\<not> ok (sprite_url s ''.png'')"
    and "\<not> ok (sprite_url s ''.gif'')"
    and "\<not> ok (sprite_url s ''.jpg'')"
  shows "load_sprite ok (spriteContainer c) =
           ([sprite_url s ''.png'', sprite_url s ''.gif'', sprite_url s ''.jpg''],
            \<lparr>sprite_className = ''sprite-container empty'',
             img = Some \<lparr>src = sprite_url s ''.jpg'', alt = s, display = ''none'',
                         pending = False, captured = nm\<rparr>\<rparr>) \<and>
         distinct [sprite_url s ''.png'', sprite_url s ''.gif'', sprite_url s ''.jpg''] \<and>
         ''empty'' \<in> set (classList ''sprite-container empty'')"
proof -
  let ?im = "\<lambda>u d p. \<lparr>src = sprite_url s u, alt = s, display = d, pending = p, captured = nm\<rparr>"
  let ?sc = "\<lambda>cn im. \<lparr>sprite_className = cn, img = Some im\<rparr>"
  have start: "spriteContainer c = ?sc ''sprite-container '' (?im ''.png'' [] True)"
    using assms(1-3) by (rule build_card_sprite)
  have cls: "classList_add ''empty'' ''sprite-container '' = ''sprite-container empty''"
    by (simp add: classList_def classList_add_def)
  have l4: "load_sprite ok (?sc ''sprite-container empty'' (?im ''.jpg'' ''none'' False)) =
              ([], ?sc ''sprite-container empty'' (?im ''.jpg'' ''none'' False))"
    using load_sprite_settled [of ok "''sprite-container empty''" "?im ''.jpg'' ''none'' False"]
    by simp
  have h3: "img_onerror (?sc ''sprite-container '' (?im ''.jpg'' [] False)) (?im ''.jpg'' [] False) =
              Inr (?sc ''sprite-container empty'' (?im ''.jpg'' ''none'' False))"
    using img_onerror_jpg [of "?im ''.jpg'' [] False" s "?sc ''sprite-container '' (?im ''.jpg'' [] False)"]
    by (simp add: cls)
  have l3: "load_sprite ok (?sc ''sprite-container '' (?im ''.jpg'' [] True)) =
              ([sprite_url s ''.jpg''], ?sc ''sprite-container empty'' (?im ''.jpg'' ''none'' False))"
    using load_sprite_fail [of ok "?im ''.jpg'' [] True" "''sprite-container ''", OF _ _ _ l4]
      assms(6) h3 by simp
  have h2: "img_onerror (?sc ''sprite-container '' (?im ''.gif'' [] False)) (?im ''.gif'' [] False) =
              Inr (?sc ''sprite-container '' (?im ''.jpg'' [] True))"
    using img_onerror_gif [of "?im ''.gif'' [] False" s "?sc ''sprite-container '' (?im ''.gif'' [] False)"]
      assms(3) by simp
  have l2: "load_sprite ok (?sc ''sprite-container '' (?im ''.gif'' [] True)) =
              ([sprite_url s ''.gif'', sprite_url s ''.jpg''],
               ?sc ''sprite-container empty'' (?im ''.jpg'' ''none'' False))"
    using load_sprite_fail [of ok "?im ''.gif'' [] True" "''sprite-container ''", OF _ _ _ l3]
      assms(5) h2 by simp
  have h1: "img_onerror (?sc ''sprite-container '' (?im ''.png'' [] False)) (?im ''.png'' [] False) =
              Inr (?sc ''sprite-container '' (?im ''.gif'' [] True))"
    using img_onerror_png [of "?im ''.png'' [] False" s "?sc ''sprite-container '' (?im ''.png'' [] False)"]
      assms(3) by simp
  have l1: "load_sprite ok (?sc ''sprite-container '' (?im ''.png'' [] True)) =
              ([sprite_url s ''.png'', sprite_url s ''.gif'', sprite_url s ''.jpg''],
               ?sc ''sprite-container empty'' (?im ''.jpg'' ''none'' False))"
    using load_sprite_fail [of ok "?im ''.png'' [] True" "''sprite-container ''", OF _ _ _ l2]
      assms(4) h1 by simp
  have d: "distinct [sprite_url s ''.png'', sprite_url s ''.gif'', sprite_url s ''.jpg'']"
    by (simp add: sprite_url_def)
  have e: "''empty'' \<in> set (classList ''sprite-container empty'')"
    by (simp add: classList_def)
  show ?thesis
    using start l1 d e by simp
qed

theorem fallback_chain_witness:
  "truthy (JStr ''pikachu'') \<and>
   build_card 0 (JStr ''pikachu'') (JStr ''Sparky'') = Inr (sparky_card 0) \<and>
   toString (JStr ''pikachu'') = Inr ''pikachu'' \<and>
   load_sprite (\<lambda>u. False) (spriteContainer (sparky_card 0)) =
     ([''/sprites/pikachu.png'', ''/sprites/pikachu.gif'', ''/sprites/pikachu.jpg''],
      \<lparr>sprite_className = ''sprite-container empty'',
       img = Some \<lparr>src = ''/sprites/pikachu.jpg'', alt = ''pikachu'', display = ''none'',
                   pending = False, captured = JStr ''pikachu''\<rparr>\<rparr>)"
proof -
  have t: "truthy (JStr ''pikachu'')" by simp
  have b: "build_card 0 (JStr ''pikachu'') (JStr ''Sparky'') = Inr (sparky_card 0)"
    by (simp add: build_card_def js_or_def new_img_def Let_def sparky_card_def sprite_url_def)
  have s: "toString (JStr ''pikachu'') = Inr ''pikachu''" by simp
  show ?thesis
    using t b s fallback_chain [of "JStr ''pikachu''" 0 "JStr ''Sparky''" "sparky_card 0"
        "''pikachu''" "\<lambda>u. False"]
    by (simp add: sprite_url_def)
qed

end
